theory Spec2Isabelle
  imports Main
begin

unbundle bit_operations_syntax

section \<open>pyflashair: the listing decoder and the attribute and date codec\<close>

text \<open>
  A shallow embedding of \<^verbatim>\<open>src/pyflashair.py\<close>. Python's unbounded integers are
  \<^typ>\<open>int\<close>; \<^verbatim>\<open>x >> n\<close> is \<^term>\<open>drop_bit n x\<close>, \<^verbatim>\<open>1 << n\<close> is
  \<^term>\<open>push_bit n (1::int)\<close> and \<^verbatim>\<open>&\<close> is \<^term>\<open>(AND)\<close>, which agree with Python on
  negative numbers too (two's complement of unbounded width, shifts rounding down).
  Strings are lists of 8-bit characters. Every exception the code can raise is a value
  \<open>Inl e\<close> of a sum type.
\<close>

subsection \<open>Exceptions\<close>

datatype py_error =
    AssertionError        \<comment> \<open>a failed \<^verbatim>\<open>assert\<close>\<close>
  | IndexError            \<comment> \<open>\<^verbatim>\<open>items[i]\<close> or \<^verbatim>\<open>lines[0]\<close> out of range\<close>
  | ValueError            \<comment> \<open>\<^verbatim>\<open>int(...)\<close>, \<^verbatim>\<open>datetime.datetime(...)\<close>, the explicit \<^verbatim>\<open>raise\<close> of Sync\<close>
  | UnicodeDecodeError    \<comment> \<open>a byte string with a non-ASCII byte coerced to text\<close>
  | IOError               \<comment> \<open>\<^verbatim>\<open>open(path, 'wb')\<close> on a directory\<close>
  | URLError              \<comment> \<open>any failure of \<^verbatim>\<open>urllib2.urlopen\<close>\<close>
  | OSError               \<comment> \<open>\<^verbatim>\<open>os.stat\<close> on a missing path, \<^verbatim>\<open>os.mkdir\<close> on an existing one\<close>

text \<open>Sequencing of computations that may raise: the first exception wins.\<close>

definition and_then :: "py_error + 'a \<Rightarrow> ('a \<Rightarrow> py_error + 'b) \<Rightarrow> py_error + 'b" where
  "and_then m k = (case m of Inl e \<Rightarrow> Inl e | Inr x \<Rightarrow> k x)"

subsection \<open>The records \<^verbatim>\<open>Attributes\<close> and \<^verbatim>\<open>File\<close>\<close>

record Attributes =
  archive :: bool
  dir :: bool
  volume :: bool
  system :: bool
  hidden :: bool
  ro :: bool

text \<open>
  The value of \<^verbatim>\<open>datetime.datetime(year, month, day, hour, minute, second)\<close>: its six
  fields (the microsecond is always 0 here).
\<close>

record datetime =
  year :: int
  month :: int
  day :: int
  hour :: int
  minute :: int
  second :: int

text \<open>
  \<^verbatim>\<open>File = namedtuple('File', 'dir name size attr datetime')\<close>. The fields \<^verbatim>\<open>dir\<close>,
  \<^verbatim>\<open>size\<close> and \<^verbatim>\<open>datetime\<close> carry the suffix \<open>_f\<close> or a prefix, since \<open>dir\<close> is
  a field of \<^typ>\<open>Attributes\<close>, \<open>size\<close> a constant of HOL and \<open>datetime\<close> the type above.
\<close>

record File =
  dir_f :: string
  name :: string
  size_f :: int
  attr :: Attributes
  datetime_f :: datetime

subsection \<open>\<^verbatim>\<open>_DecodeAttributes\<close> (lines 63 to 73)\<close>

text \<open>\<^verbatim>\<open>bool(attr & (1 << k))\<close>: the masked value is not zero.\<close>

definition DecodeAttributes :: "int \<Rightarrow> Attributes" where
  "DecodeAttributes a =
     \<lparr> archive = (a AND push_bit 5 1 \<noteq> 0),
       dir = (a AND push_bit 4 1 \<noteq> 0),
       volume = (a AND push_bit 3 1 \<noteq> 0),
       system = (a AND push_bit 2 1 \<noteq> 0),
       hidden = (a AND push_bit 1 1 \<noteq> 0),
       ro = (a AND push_bit 0 1 \<noteq> 0) \<rparr>"

subsection \<open>\<^verbatim>\<open>datetime.datetime\<close> of the standard library\<close>

text \<open>
  The constructor of the standard library checks its arguments and raises
  \<^verbatim>\<open>ValueError\<close> when one is out of range: the year in 1..9999, the month in 1..12, the
  day in 1..(number of days of that month in that year), the hour in 0..23, minute and
  second in 0..59. It neither clamps nor normalises.
\<close>

definition is_leap :: "int \<Rightarrow> bool" where
  "is_leap y = (y mod 4 = 0 \<and> (y mod 100 \<noteq> 0 \<or> y mod 400 = 0))"

definition days_in_month :: "int \<Rightarrow> int \<Rightarrow> int" where
  "days_in_month y m =
     (if m = 2 then (if is_leap y then 29 else 28)
      else if m = 4 \<or> m = 6 \<or> m = 9 \<or> m = 11 then 30 else 31)"

definition datetime_datetime ::
    "int \<Rightarrow> int \<Rightarrow> int \<Rightarrow> int \<Rightarrow> int \<Rightarrow> int \<Rightarrow> py_error + datetime" where
  "datetime_datetime y mo d h mi s =
     (if 1 \<le> y \<and> y \<le> 9999 \<and> 1 \<le> mo \<and> mo \<le> 12 \<and> 1 \<le> d \<and> d \<le> days_in_month y mo
         \<and> 0 \<le> h \<and> h \<le> 23 \<and> 0 \<le> mi \<and> mi \<le> 59 \<and> 0 \<le> s \<and> s \<le> 59
      then Inr \<lparr> year = y, month = mo, day = d, hour = h, minute = mi, second = s \<rparr>
      else Inl ValueError)"

subsection \<open>\<^verbatim>\<open>_DecodeDateAndTime\<close> (lines 75 to 84)\<close>

definition DecodeDateAndTime :: "int \<Rightarrow> int \<Rightarrow> py_error + datetime" where
  "DecodeDateAndTime d t =
     (let year = (drop_bit 9 d AND 127) + 1980;
          month = drop_bit 5 d AND 15;
          day = d AND 31;
          hour = drop_bit 11 t AND 31;
          minute = drop_bit 5 t AND 63;
          second = (t AND 31) * 2
      in datetime_datetime year month day hour minute second)"

subsection \<open>\<^verbatim>\<open>str.rsplit\<close> and \<^verbatim>\<open>int\<close> of the standard library\<close>

text \<open>
  \<^verbatim>\<open>s.split(c, n)\<close>: at most \<open>n\<close> splits, from the left. \<^verbatim>\<open>s.rsplit(c, n)\<close> is the
  same from the right: the library scans the string backwards, collects the pieces and
  reverses their list.
\<close>

fun split_max :: "char \<Rightarrow> nat \<Rightarrow> string \<Rightarrow> string list" where
  "split_max c 0 s = [s]"
| "split_max c (Suc n) s =
     (if c \<in> set s
      then takeWhile (\<lambda>x. x \<noteq> c) s # split_max c n (tl (dropWhile (\<lambda>x. x \<noteq> c) s))
      else [s])"

definition rsplit :: "char \<Rightarrow> nat \<Rightarrow> string \<Rightarrow> string list" where
  "rsplit c n s = rev (map rev (split_max c n (rev s)))"

text \<open>
  \<^verbatim>\<open>int(text)\<close> in base 10: optional white space, an optional sign, one or more
  decimal digits, optional white space; anything else raises \<^verbatim>\<open>ValueError\<close>. The
  white space of a text string in ASCII is the characters 9 to 13, 28 to 32.
\<close>

definition is_space :: "char \<Rightarrow> bool" where
  "is_space c = (let k = (of_char c :: nat) in (9 \<le> k \<and> k \<le> 13) \<or> (28 \<le> k \<and> k \<le> 32))"

definition is_digit :: "char \<Rightarrow> bool" where
  "is_digit c = (let k = (of_char c :: nat) in 48 \<le> k \<and> k \<le> 57)"

definition digits_value :: "string \<Rightarrow> int" where
  "digits_value ds = foldl (\<lambda>acc c. 10 * acc + (of_char c - 48)) 0 ds"

definition py_int :: "string \<Rightarrow> py_error + int" where
  "py_int s =
     (let s1 = dropWhile is_space s;
          neg = (s1 \<noteq> [] \<and> hd s1 = CHR ''-'');
          s2 = (if s1 \<noteq> [] \<and> (hd s1 = CHR ''-'' \<or> hd s1 = CHR ''+'') then tl s1 else s1);
          ds = takeWhile is_digit s2;
          rest = dropWhile is_space (dropWhile is_digit s2)
      in if ds = [] \<or> rest \<noteq> [] then Inl ValueError
         else Inr (if neg then - digits_value ds else digits_value ds))"

subsection \<open>\<^verbatim>\<open>GetFileList\<close> (lines 86 to 99)\<close>

text \<open>\<^verbatim>\<open>items[i]\<close>: \<^verbatim>\<open>IndexError\<close> out of range.\<close>

definition item :: "'a list \<Rightarrow> nat \<Rightarrow> py_error + 'a" where
  "item xs i = (if i < length xs then Inr (xs ! i) else Inl IndexError)"

text \<open>
  The module imports \<^verbatim>\<open>unicode_literals\<close>, so the separator \<^verbatim>\<open>','\<close> is a text
  string and \<^verbatim>\<open>rsplit\<close> first decodes the line (a byte string of the response) as
  ASCII: a byte above 127 raises \<^verbatim>\<open>UnicodeDecodeError\<close>.
\<close>

definition is_ascii :: "string \<Rightarrow> bool" where
  "is_ascii s = list_all (\<lambda>c. (of_char c :: nat) < 128) s"

text \<open>
  The body of the loop, lines 92 to 98: one line of the response to one \<^typ>\<open>File\<close>. The
  arguments of \<^verbatim>\<open>File(...)\<close> are evaluated in the order they are written.
\<close>

definition parse_line :: "string \<Rightarrow> py_error + File" where
  "parse_line line =
     (if \<not> is_ascii line then Inl UnicodeDecodeError
      else
        let items = rsplit CHR '','' 6 line in
        and_then (item items 0) (\<lambda>d.
        and_then (item items 1) (\<lambda>n.
        and_then (item items 2) (\<lambda>i2. and_then (py_int i2) (\<lambda>sz.
        and_then (item items 3) (\<lambda>i3. and_then (py_int i3) (\<lambda>a.
        and_then (item items 4) (\<lambda>i4. and_then (py_int i4) (\<lambda>dp.
        and_then (item items 5) (\<lambda>i5. and_then (py_int i5) (\<lambda>tp.
        and_then (DecodeDateAndTime dp tp) (\<lambda>dt.
          Inr \<lparr> dir_f = d, name = n, size_f = sz, attr = DecodeAttributes a,
                datetime_f = dt \<rparr>))))))))))))"

text \<open>The loop of lines 91 to 98: the first line that raises ends the call.\<close>

fun parse_lines :: "string list \<Rightarrow> py_error + File list" where
  "parse_lines [] = Inr []"
| "parse_lines (l # ls) =
     (case parse_line l of
        Inl e \<Rightarrow> Inl e
      | Inr f \<Rightarrow> (case parse_lines ls of Inl e \<Rightarrow> Inl e | Inr fs \<Rightarrow> Inr (f # fs)))"

text \<open>
  Lines 89 to 99, on the list \<open>lines\<close> that \<^verbatim>\<open>_GetOp\<close> returned (the lines of the
  response, each one stripped of surrounding white space).
\<close>

definition decode_listing :: "string list \<Rightarrow> py_error + File list" where
  "decode_listing lines =
     (case lines of
        [] \<Rightarrow> Inl IndexError
      | first # rest \<Rightarrow>
          if first \<noteq> ''WLANSD_FILELIST'' then Inl AssertionError else parse_lines rest)"

subsection \<open>The device, and \<^verbatim>\<open>GetFileList\<close> as a whole\<close>

text \<open>
  The card is reached through \<^verbatim>\<open>urllib2\<close> only. It is a pair of functions: what
  \<^verbatim>\<open>_GetOp(op, extra_args)\<close> returns (the stripped lines of the response, or the
  exception of the transport), and what \<^verbatim>\<open>_GetFile(path)\<close> returns.
\<close>

record device =
  get_op :: "nat \<Rightarrow> string \<Rightarrow> py_error + string list"
  get_file :: "string \<Rightarrow> py_error + string"

definition OP_GET_FILE_LIST :: nat where
  "OP_GET_FILE_LIST = 100"

definition GetFileList :: "device \<Rightarrow> string \<Rightarrow> py_error + File list" where
  "GetFileList dev directory =
     and_then (get_op dev OP_GET_FILE_LIST (''DIR='' @ directory)) decode_listing"

subsection \<open>The wire format in the words of the specification\<close>

text \<open>
  The bit layout of the packed date and time as the specification writes it, field by
  field, and the attribute byte rebuilt from six flags (bit 5 is archive, bit 0 is
  read-only). The code is compared with these below.
\<close>

definition layout_year :: "int \<Rightarrow> int" where
  "layout_year datePacked = (drop_bit 9 datePacked AND 0x7F) + 1980"

definition layout_month :: "int \<Rightarrow> int" where
  "layout_month datePacked = drop_bit 5 datePacked AND 0xF"

definition layout_day :: "int \<Rightarrow> int" where
  "layout_day datePacked = datePacked AND 0x1F"

definition layout_hour :: "int \<Rightarrow> int" where
  "layout_hour timePacked = drop_bit 11 timePacked AND 0x1F"

definition layout_minute :: "int \<Rightarrow> int" where
  "layout_minute timePacked = drop_bit 5 timePacked AND 0x3F"

definition layout_second :: "int \<Rightarrow> int" where
  "layout_second timePacked = (timePacked AND 0x1F) * 2"

definition attribute_byte :: "Attributes \<Rightarrow> int" where
  "attribute_byte x =
     of_bool (archive x) * 32 + of_bool (dir x) * 16 + of_bool (volume x) * 8
     + of_bool (system x) * 4 + of_bool (hidden x) * 2 + of_bool (ro x)"

text \<open>A calendar date: what \<^verbatim>\<open>datetime.datetime\<close> accepts as month and day.\<close>

definition valid_date :: "int \<Rightarrow> int \<Rightarrow> int \<Rightarrow> bool" where
  "valid_date y m d = (1 \<le> m \<and> m \<le> 12 \<and> 1 \<le> d \<and> d \<le> days_in_month y m)"

text \<open>A time of day: what \<^verbatim>\<open>datetime.datetime\<close> accepts as hour, minute and second.\<close>

definition valid_time :: "int \<Rightarrow> int \<Rightarrow> int \<Rightarrow> bool" where
  "valid_time h mi s = (0 \<le> h \<and> h \<le> 23 \<and> 0 \<le> mi \<and> mi \<le> 59 \<and> 0 \<le> s \<and> s \<le> 59)"

text \<open>
  A data line with too few fields or a field that is no number: it has fewer than six
  comma-separated pieces, or it has exactly six and the third, fourth, fifth or sixth is
  not an integer. (A line of six pieces or fewer has at most five commas, so every
  right-anchored split of five or more gives the same pieces.)
\<close>

definition malformed_line :: "string \<Rightarrow> bool" where
  "malformed_line l =
     (let items = rsplit CHR '','' 6 l
      in length items < 6
         \<or> (length items = 6
            \<and> (py_int (items ! 2) = Inl ValueError \<or> py_int (items ! 3) = Inl ValueError
               \<or> py_int (items ! 4) = Inl ValueError \<or> py_int (items ! 5) = Inl ValueError)))"

subsection \<open>\<^verbatim>\<open>RecursiveFileList\<close> (lines 101 to 113)\<close>

text \<open>\<^verbatim>\<open>'%d' % n\<close> and \<^verbatim>\<open>'%s' % datetime\<close> (\<open>YYYY-MM-DD HH:MM:SS\<close>) of the standard library.\<close>

fun digits :: "nat \<Rightarrow> string" where
  "digits n =
     (if n < 10 then [char_of (48 + n)] else digits (n div 10) @ [char_of (48 + n mod 10)])"

definition show_int :: "int \<Rightarrow> string" where
  "show_int i = (if i < 0 then CHR ''-'' # digits (nat (- i)) else digits (nat i))"

definition zero_pad :: "nat \<Rightarrow> string \<Rightarrow> string" where
  "zero_pad n s = replicate (n - length s) CHR ''0'' @ s"

definition show_datetime :: "datetime \<Rightarrow> string" where
  "show_datetime dt =
     zero_pad 4 (show_int (year dt)) @ ''-'' @ zero_pad 2 (show_int (month dt)) @ ''-''
     @ zero_pad 2 (show_int (day dt)) @ '' '' @ zero_pad 2 (show_int (hour dt)) @ '':''
     @ zero_pad 2 (show_int (minute dt)) @ '':'' @ zero_pad 2 (show_int (second dt))"

text \<open>The string \<open>s\<close> of lines 104 to 110: what is printed for one entry.\<close>

definition entry_line :: "nat \<Rightarrow> File \<Rightarrow> string" where
  "entry_line levels f =
     replicate (levels * 2) CHR '' '' @ name f
     @ (if dir (attr f) then ''/'' else '' | '' @ show_int (size_f f) @ '' bytes'')
     @ '' | '' @ show_datetime (datetime_f f)"

text \<open>
  The result of a run: the lines printed, and how the call ended. The outer \<open>option\<close>
  belongs to the fuel: the recursion follows the directories the device reports, which
  need not end (a device may report a cycle), so the function takes the number of nested
  calls it may make and is \<open>None\<close> when they do not suffice.

  The loop of lines 103 to 113, with the recursive call as the parameter \<open>rec\<close>: print
  the entry, then descend into a directory before going on with the next entry.
\<close>

type_synonym listing_run = "(string list \<times> (py_error + unit)) option"

fun walk_files :: "(string \<Rightarrow> nat \<Rightarrow> listing_run) \<Rightarrow> string \<Rightarrow> nat \<Rightarrow> File list \<Rightarrow> listing_run" where
  "walk_files rec directory levels [] = Some ([], Inr ())"
| "walk_files rec directory levels (f # fs) =
     (if dir (attr f) then
        (case rec (directory @ ''/'' @ name f) (levels + 1) of
           None \<Rightarrow> None
         | Some (out, Inl e) \<Rightarrow> Some (entry_line levels f # out, Inl e)
         | Some (out, Inr u) \<Rightarrow>
             (case walk_files rec directory levels fs of
                None \<Rightarrow> None
              | Some (out', r) \<Rightarrow> Some (entry_line levels f # out @ out', r)))
      else
        (case walk_files rec directory levels fs of
           None \<Rightarrow> None
         | Some (out', r) \<Rightarrow> Some (entry_line levels f # out', r)))"

fun RecursiveFileList :: "nat \<Rightarrow> device \<Rightarrow> string \<Rightarrow> nat \<Rightarrow> listing_run" where
  "RecursiveFileList 0 dev directory levels = None"
| "RecursiveFileList (Suc fuel) dev directory levels =
     (case GetFileList dev directory of
        Inl e \<Rightarrow> Some ([], Inl e)
      | Inr files \<Rightarrow> walk_files (RecursiveFileList fuel dev) directory levels files)"

subsection \<open>The directory tree a device reports, and its pre-order\<close>

text \<open>
  A tree of entries: an entry with the trees of its directory (none for a regular file).
  \<open>reports dev directory files ts\<close>: the listing \<open>files\<close> of \<open>directory\<close> and, below
  each directory entry, the listings the device gives for it, are the forest \<open>ts\<close>.
\<close>

datatype rtree = Node File "rtree list"

fun reports :: "device \<Rightarrow> string \<Rightarrow> File list \<Rightarrow> rtree list \<Rightarrow> bool" where
  "reports dev directory [] [] = True"
| "reports dev directory (f # fs) (Node g cs # ts) =
     (f = g
      \<and> (if dir (attr f)
         then (case GetFileList dev (directory @ ''/'' @ name f) of
                 Inl e \<Rightarrow> False
               | Inr files \<Rightarrow> reports dev (directory @ ''/'' @ name f) files cs)
         else cs = [])
      \<and> reports dev directory fs ts)"
| "reports dev directory fs ts = False"

definition device_tree :: "device \<Rightarrow> string \<Rightarrow> rtree list \<Rightarrow> bool" where
  "device_tree dev directory ts =
     (case GetFileList dev directory of Inl e \<Rightarrow> False | Inr files \<Rightarrow> reports dev directory files ts)"

text \<open>Depth-first pre-order: an entry, then its whole subtree, then its next sibling.\<close>

fun preorder :: "nat \<Rightarrow> rtree \<Rightarrow> string list"
  and preorder_forest :: "nat \<Rightarrow> rtree list \<Rightarrow> string list" where
  "preorder levels (Node f cs) = entry_line levels f # preorder_forest (levels + 1) cs"
| "preorder_forest levels [] = []"
| "preorder_forest levels (t # ts) = preorder levels t @ preorder_forest levels ts"

fun height :: "rtree \<Rightarrow> nat"
  and height_forest :: "rtree list \<Rightarrow> nat" where
  "height (Node f cs) = Suc (height_forest cs)"
| "height_forest [] = 0"
| "height_forest (t # ts) = max (height t) (height_forest ts)"

subsection \<open>The local file system and the requests to the device\<close>

text \<open>
  The part of the world \<^verbatim>\<open>Sync\<close> acts on: the local file system, a map from path
  strings to entries; the size \<^verbatim>\<open>os.stat\<close> reports for a directory (it depends on the
  file system); the requests sent to the device, oldest first; and the lines printed.
  Paths are compared as strings, and an entry needs no parent directory: the hierarchy,
  permissions and full disks are outside the model.
\<close>

datatype node = Directory | RegularFile string

datatype request = ListRequest string | FileRequest string

record world =
  disk :: "string \<rightharpoonup> node"
  dir_st_size :: "string \<Rightarrow> nat"
  requests :: "request list"
  stdout :: "string list"

type_synonym sync_run = "(world \<times> (py_error + unit)) option"

definition print :: "string \<Rightarrow> world \<Rightarrow> world" where
  "print s w = w\<lparr>stdout := stdout w @ [s]\<rparr>"

definition path_exists :: "world \<Rightarrow> string \<Rightarrow> bool" where
  "path_exists w p = (disk w p \<noteq> None)"

definition path_isdir :: "world \<Rightarrow> string \<Rightarrow> bool" where
  "path_isdir w p = (disk w p = Some Directory)"

text \<open>\<^verbatim>\<open>os.stat(p).st_size\<close>, \<^verbatim>\<open>os.mkdir(p)\<close> and \<^verbatim>\<open>open(p, 'wb')\<close> with \<^verbatim>\<open>write\<close>.\<close>

definition stat_size :: "world \<Rightarrow> string \<Rightarrow> py_error + int" where
  "stat_size w p =
     (case disk w p of
        None \<Rightarrow> Inl OSError
      | Some Directory \<Rightarrow> Inr (int (dir_st_size w p))
      | Some (RegularFile contents) \<Rightarrow> Inr (int (length contents)))"

definition mkdir :: "string \<Rightarrow> world \<Rightarrow> py_error + world" where
  "mkdir p w =
     (if disk w p \<noteq> None then Inl OSError else Inr (w\<lparr>disk := (disk w)(p \<mapsto> Directory)\<rparr>))"

definition open_write :: "string \<Rightarrow> string \<Rightarrow> world \<Rightarrow> py_error + world" where
  "open_write p contents w =
     (if disk w p = Some Directory then Inl IOError
      else Inr (w\<lparr>disk := (disk w)(p \<mapsto> RegularFile contents)\<rparr>))"

text \<open>\<^verbatim>\<open>os.path.join(a, b)\<close> of \<^verbatim>\<open>posixpath\<close>, and \<^verbatim>\<open>lower()\<close> on ASCII text.\<close>

definition path_join :: "string \<Rightarrow> string \<Rightarrow> string" where
  "path_join a b =
     (if b \<noteq> [] \<and> hd b = CHR ''/'' then b
      else if a = [] \<or> last a = CHR ''/'' then a @ b
      else a @ ''/'' @ b)"

definition lower_char :: "char \<Rightarrow> char" where
  "lower_char c =
     (let k = (of_char c :: nat) in if 65 \<le> k \<and> k \<le> 90 then char_of (k + 32) else c)"

definition lower :: "string \<Rightarrow> string" where
  "lower s = map lower_char s"

subsection \<open>\<^verbatim>\<open>Sync\<close> (lines 115 to 144)\<close>

text \<open>Lines 125 to 127: the local path of an entry.\<close>

definition local_path :: "string \<Rightarrow> string \<Rightarrow> bool \<Rightarrow> string" where
  "local_path local_dir nm force_lowercase =
     (if force_lowercase then lower (path_join local_dir nm) else path_join local_dir nm)"

text \<open>Lines 142 to 144: request the file, then overwrite the local path with what came.\<close>

definition fetch_file :: "device \<Rightarrow> string \<Rightarrow> string \<Rightarrow> world \<Rightarrow> sync_run" where
  "fetch_file dev remote_file local_file w =
     (let w1 = w\<lparr>requests := requests w @ [FileRequest remote_file]\<rparr> in
      case get_file dev remote_file of
        Inl e \<Rightarrow> Some (w1, Inl e)
      | Inr contents \<Rightarrow>
          (case open_write local_file contents w1 of
             Inl e \<Rightarrow> Some (w1, Inl e)
           | Inr w2 \<Rightarrow> Some (w2, Inr ())))"

text \<open>
  The body of the loop, lines 122 to 144, for one entry \<open>f\<close>; \<open>rec\<close> is the recursive
  call of line 133.
\<close>

definition Sync_entry ::
    "(string \<Rightarrow> string \<Rightarrow> world \<Rightarrow> sync_run) \<Rightarrow> device \<Rightarrow> string \<Rightarrow> string \<Rightarrow> bool \<Rightarrow> File
      \<Rightarrow> world \<Rightarrow> sync_run" where
  "Sync_entry rec dev remote_dir local_dir force_lowercase f w =
     (let w1 = print (name f) w;
          remote_file = path_join remote_dir (name f);
          local_file = local_path local_dir (name f) force_lowercase
      in if dir (attr f) then
           (if \<not> path_exists w1 local_file then
              (case mkdir local_file w1 of
                 Inl e \<Rightarrow> Some (w1, Inl e)
               | Inr w2 \<Rightarrow> rec remote_file local_file w2)
            else if \<not> path_isdir w1 local_file then Some (w1, Inl AssertionError)
            else rec remote_file local_file w1)
         else
           (if \<not> path_exists w1 local_file then
              fetch_file dev remote_file local_file
                (print ''  does not exist locally, fetching...'' w1)
            else
              (case stat_size w1 local_file of
                 Inl e \<Rightarrow> Some (w1, Inl e)
               | Inr st_size \<Rightarrow>
                   if st_size \<noteq> size_f f then
                     fetch_file dev remote_file local_file
                       (print ''  size differs, fetching...'' w1)
                   else Some (w1, Inr ()))))"

text \<open>The loop of lines 121 to 144: an exception ends it.\<close>

fun Sync_files ::
    "(string \<Rightarrow> string \<Rightarrow> world \<Rightarrow> sync_run) \<Rightarrow> device \<Rightarrow> string \<Rightarrow> string \<Rightarrow> bool \<Rightarrow> File list
      \<Rightarrow> world \<Rightarrow> sync_run" where
  "Sync_files rec dev remote_dir local_dir force_lowercase [] w = Some (w, Inr ())"
| "Sync_files rec dev remote_dir local_dir force_lowercase (f # files) w =
     (case Sync_entry rec dev remote_dir local_dir force_lowercase f w of
        None \<Rightarrow> None
      | Some (w', Inl e) \<Rightarrow> Some (w', Inl e)
      | Some (w', Inr u) \<Rightarrow> Sync_files rec dev remote_dir local_dir force_lowercase files w')"

text \<open>
  \<^verbatim>\<open>Sync\<close> itself, with fuel for the nested calls as in the walker: \<open>None\<close> when the
  directories the device reports are nested deeper than the fuel.
\<close>

fun Sync :: "nat \<Rightarrow> device \<Rightarrow> string \<Rightarrow> string \<Rightarrow> bool \<Rightarrow> world \<Rightarrow> sync_run" where
  "Sync 0 dev remote_dir local_dir force_lowercase w = None"
| "Sync (Suc fuel) dev remote_dir local_dir force_lowercase w =
     (let w1 = print (''Syncing '' @ remote_dir @ '' -> '' @ local_dir) w in
      if \<not> path_exists w1 local_dir then Some (w1, Inl ValueError)
      else
        (let w2 = w1\<lparr>requests := requests w1 @ [ListRequest remote_dir]\<rparr> in
         case GetFileList dev remote_dir of
           Inl e \<Rightarrow> Some (w2, Inl e)
         | Inr files \<Rightarrow>
             Sync_files (\<lambda>r l. Sync fuel dev r l force_lowercase) dev remote_dir local_dir
               force_lowercase files w2))"

subsection \<open>What a sync may touch, and when a file is fetched\<close>

text \<open>
  The local file is absent or its size differs from the size the device reports.
\<close>

definition needs_fetch :: "world \<Rightarrow> string \<Rightarrow> int \<Rightarrow> bool" where
  "needs_fetch w local_file remote_size =
     (case disk w local_file of
        None \<Rightarrow> True
      | Some Directory \<Rightarrow> int (dir_st_size w local_file) \<noteq> remote_size
      | Some (RegularFile contents) \<Rightarrow> int (length contents) \<noteq> remote_size)"



subsection \<open>Example devices and file systems\<close>

text \<open>
  A card whose root lists the directory \<open>a\<close> and the file \<open>b\<close> of 10 bytes, and whose
  directory \<open>a\<close>, asked for as \<^verbatim>\<open>//a\<close> by the walker and as \<^verbatim>\<open>/a\<close> by the sync, lists
  the file \<open>c\<close> of 3 bytes; every other request fails.
\<close>

definition example_card :: device where
  "example_card =
     \<lparr> get_op = (\<lambda>op args.
         if op = 100 \<and> args = ''DIR=/''
         then Inr [''WLANSD_FILELIST'', ''/,a,0,16,20591,21440'', ''/,b,10,32,20591,21440'']
         else if op = 100 \<and> args = ''DIR=//a''
         then Inr [''WLANSD_FILELIST'', ''//a,c,3,32,20591,21440'']
         else if op = 100 \<and> args = ''DIR=/a''
         then Inr [''WLANSD_FILELIST'', ''/a,c,3,32,20591,21440'']
         else Inl URLError),
       get_file = (\<lambda>path.
         if path = ''/b'' then Inr ''0123456789''
         else if path = ''/a/c'' then Inr ''xyz''
         else Inl URLError) \<rparr>"

definition file_a :: File where
  "file_a = \<lparr> dir_f = ''/'', name = ''a'', size_f = 0, attr = DecodeAttributes 16,
     datetime_f = \<lparr> year = 2020, month = 3, day = 15, hour = 10, minute = 30, second = 0 \<rparr> \<rparr>"

definition file_b :: File where
  "file_b = \<lparr> dir_f = ''/'', name = ''b'', size_f = 10, attr = DecodeAttributes 32,
     datetime_f = \<lparr> year = 2020, month = 3, day = 15, hour = 10, minute = 30, second = 0 \<rparr> \<rparr>"

definition file_c :: File where
  "file_c = \<lparr> dir_f = ''//a'', name = ''c'', size_f = 3, attr = DecodeAttributes 32,
     datetime_f = \<lparr> year = 2020, month = 3, day = 15, hour = 10, minute = 30, second = 0 \<rparr> \<rparr>"

definition file_c_sync :: File where
  "file_c_sync = file_c \<lparr> dir_f := ''/a'' \<rparr>"

text \<open>
  Local file systems: a list of entries, directories of size 4096, nothing requested or
  printed yet. Three of them hold the destination \<^verbatim>\<open>/tmp\<close> and one more entry: a file of 10
  bytes or of 8 bytes at \<^verbatim>\<open>/tmp/b\<close>, or a file where the directory \<^verbatim>\<open>/tmp/a\<close> is expected.
\<close>

definition local_world :: "(string \<times> node) list \<Rightarrow> world" where
  "local_world entries =
     \<lparr> disk = map_of entries, dir_st_size = (\<lambda>p. 4096), requests = [], stdout = [] \<rparr>"

definition world_empty :: world where
  "world_empty = local_world [(''/tmp'', Directory), (''/tmp/keep'', RegularFile ''mine'')]"



definition world_conflict :: world where
  "world_conflict = local_world [(''/tmp'', Directory), (''/tmp/a'', RegularFile ''not a directory'')]"

section \<open>Properties\<close>

subsection \<open>The attribute and date codec\<close>

lemma test_bits:
  "(a AND 32 \<noteq> 0) = bit (a::int) 5" "(a AND 16 \<noteq> 0) = bit a 4"
  "(a AND 8 \<noteq> 0) = bit a 3" "(a AND 4 \<noteq> 0) = bit a 2"
  "(a AND 2 \<noteq> 0) = bit a 1" "(a AND 1 \<noteq> 0) = bit a 0"
  using and_exp_eq_0_iff_not_bit[of a 5] and_exp_eq_0_iff_not_bit[of a 4]
    and_exp_eq_0_iff_not_bit[of a 3] and_exp_eq_0_iff_not_bit[of a 2]
    and_exp_eq_0_iff_not_bit[of a 1] and_exp_eq_0_iff_not_bit[of a 0]
  by simp_all

lemma take_bit_6_flags:
  "take_bit 6 (a::int) =
     of_bool (bit a 5) * 32 + of_bool (bit a 4) * 16 + of_bool (bit a 3) * 8
     + of_bool (bit a 2) * 4 + of_bool (bit a 1) * 2 + of_bool (bit a 0)"
proof -
  have "take_bit 6 a = horner_sum of_bool 2 (map (bit a) [0..<6])"
    by (simp add: horner_sum_bit_eq_take_bit)
  also have "[0..<6] = [0, 1, 2, 3, 4, 5]"
    by (simp add: upt_rec)
  finally show ?thesis by simp
qed

lemma DecodeAttributes_flags:
  "DecodeAttributes a =
     \<lparr> archive = bit a 5, dir = bit a 4, volume = bit a 3, system = bit a 2,
       hidden = bit a 1, ro = bit a 0 \<rparr>"
  by (simp add: DecodeAttributes_def test_bits)

lemma and_mask_mod:
  "x AND 127 = x mod 128" "x AND 15 = x mod 16" "x AND 31 = x mod 32" "x AND 63 = x mod 64"
  for x :: int
  using take_bit_eq_mask[of 7 x] take_bit_eq_mask[of 4 x] take_bit_eq_mask[of 5 x]
    take_bit_eq_mask[of 6 x]
  by (simp_all add: take_bit_eq_mod mask_eq_exp_minus_1)

text \<open>The fields in arithmetic: each one is a range of binary digits of the packed value.\<close>

lemma layout_arith:
  "layout_year d = d div 512 mod 128 + 1980"
  "layout_month d = d div 32 mod 16"
  "layout_day d = d mod 32"
  "layout_hour t = t div 2048 mod 32"
  "layout_minute t = t div 32 mod 64"
  "layout_second t = t mod 32 * 2"
  by (simp_all add: layout_year_def layout_month_def layout_day_def layout_hour_def
      layout_minute_def layout_second_def and_mask_mod drop_bit_eq_div)

lemma layout_bounds:
  "1980 \<le> layout_year d \<and> layout_year d \<le> 2107"
  "0 \<le> layout_month d \<and> layout_month d \<le> 15"
  "0 \<le> layout_day d \<and> layout_day d \<le> 31"
  "0 \<le> layout_hour t \<and> layout_hour t \<le> 31"
  "0 \<le> layout_minute t \<and> layout_minute t \<le> 63"
  "0 \<le> layout_second t \<and> layout_second t \<le> 62"
  by (simp_all add: layout_arith) (presburger+)?

lemma DecodeAttributes_low_bits: "DecodeAttributes (a AND 63) = DecodeAttributes a"
proof -
  have "a AND 63 = take_bit 6 a"
    by (simp add: take_bit_eq_mask mask_eq_exp_minus_1)
  then show ?thesis
    by (simp add: DecodeAttributes_flags bit_take_bit_iff)
qed

lemma datetime_datetime_Inr:
  "datetime_datetime y mo d h mi s = Inr dt \<Longrightarrow>
     dt = \<lparr> year = y, month = mo, day = d, hour = h, minute = mi, second = s \<rparr>"
  unfolding datetime_datetime_def by (simp split: if_splits)

lemma datetime_datetime_valid:
  "datetime_datetime y mo d h mi s = Inr dt \<Longrightarrow> valid_date y mo d"
  unfolding datetime_datetime_def valid_date_def by (simp split: if_splits)

lemma datetime_datetime_invalid:
  "\<not> valid_date y mo d \<Longrightarrow> datetime_datetime y mo d h mi s = Inl ValueError"
  unfolding datetime_datetime_def valid_date_def by auto

lemma datetime_datetime_error: "datetime_datetime y mo d h mi s = Inl e \<Longrightarrow> e = ValueError"
  unfolding datetime_datetime_def by (simp split: if_splits)

lemma DecodeDateAndTime_eq:
  "DecodeDateAndTime datePacked timePacked =
     datetime_datetime (layout_year datePacked) (layout_month datePacked)
       (layout_day datePacked) (layout_hour timePacked) (layout_minute timePacked)
       (layout_second timePacked)"
  by (simp add: DecodeDateAndTime_def layout_year_def layout_month_def layout_day_def
      layout_hour_def layout_minute_def layout_second_def)

lemma packed_example:
  "push_bit 9 (2020 - 1980) OR push_bit 5 3 OR 15 = (20591::int)"
  "push_bit 11 10 OR push_bit 5 30 OR 0 = (21440::int)"
  by (simp_all add: push_bit_eq_mult)

lemma decode_example:
  "DecodeDateAndTime 20591 21440
     = Inr \<lparr> year = 2020, month = 3, day = 15, hour = 10, minute = 30, second = 0 \<rparr>"
  by (simp add: DecodeDateAndTime_def datetime_datetime_def days_in_month_def)

lemma datetime_datetime_cases:
  "datetime_datetime y mo d h mi s =
     (if 1 \<le> y \<and> y \<le> 9999 \<and> valid_date y mo d \<and> valid_time h mi s
      then Inr \<lparr> year = y, month = mo, day = d, hour = h, minute = mi, second = s \<rparr>
      else Inl ValueError)"
  by (simp add: datetime_datetime_def valid_date_def valid_time_def)

lemma layout_year_range: "1 \<le> layout_year d \<and> layout_year d \<le> 9999"
  using layout_bounds(1)[of d] by simp

text \<open>
  Claim C1, amended. For every pair of packed integers whose decoded fields are a
  calendar date and a time of day, decoding returns the calendar value with exactly
  year = ((datePacked >> 9) & 0x7F) + 1980, month = (datePacked >> 5) & 0xF, day =
  datePacked & 0x1F, hour = (timePacked >> 11) & 0x1F, minute = (timePacked >> 5) & 0x3F,
  second = (timePacked & 0x1F) * 2; for every other pair the construction of the calendar
  value raises \<^verbatim>\<open>ValueError\<close>; and the packed date of 2020-03-15 with the packed time
  of 10:30:00 decodes to exactly those values.
\<close>

theorem DecodeDateAndTime_fields:
  "(valid_date (layout_year datePacked) (layout_month datePacked) (layout_day datePacked)
      \<and> valid_time (layout_hour timePacked) (layout_minute timePacked)
          (layout_second timePacked)
    \<longrightarrow> DecodeDateAndTime datePacked timePacked =
          Inr \<lparr> year = layout_year datePacked, month = layout_month datePacked,
                day = layout_day datePacked, hour = layout_hour timePacked,
                minute = layout_minute timePacked, second = layout_second timePacked \<rparr>)
   \<and> (\<not> (valid_date (layout_year datePacked) (layout_month datePacked)
            (layout_day datePacked)
          \<and> valid_time (layout_hour timePacked) (layout_minute timePacked)
              (layout_second timePacked))
    \<longrightarrow> DecodeDateAndTime datePacked timePacked = Inl ValueError)
   \<and> DecodeDateAndTime (push_bit 9 (2020 - 1980) OR push_bit 5 3 OR 15)
        (push_bit 11 10 OR push_bit 5 30 OR 0)
      = Inr \<lparr> year = 2020, month = 3, day = 15, hour = 10, minute = 30, second = 0 \<rparr>"
proof -
  note eq = DecodeDateAndTime_eq[of datePacked timePacked]
  note yr = layout_year_range[of datePacked]
  have good: "valid_date (layout_year datePacked) (layout_month datePacked)
        (layout_day datePacked)
      \<and> valid_time (layout_hour timePacked) (layout_minute timePacked)
          (layout_second timePacked)
    \<longrightarrow> DecodeDateAndTime datePacked timePacked =
          Inr \<lparr> year = layout_year datePacked, month = layout_month datePacked,
                day = layout_day datePacked, hour = layout_hour timePacked,
                minute = layout_minute timePacked, second = layout_second timePacked \<rparr>"
    unfolding eq datetime_datetime_cases using yr by simp
  have bad: "\<not> (valid_date (layout_year datePacked) (layout_month datePacked)
            (layout_day datePacked)
          \<and> valid_time (layout_hour timePacked) (layout_minute timePacked)
              (layout_second timePacked))
    \<longrightarrow> DecodeDateAndTime datePacked timePacked = Inl ValueError"
    unfolding eq datetime_datetime_cases by simp
  have ex: "DecodeDateAndTime (push_bit 9 (2020 - 1980) OR push_bit 5 3 OR 15)
        (push_bit 11 10 OR push_bit 5 30 OR 0)
      = Inr \<lparr> year = 2020, month = 3, day = 15, hour = 10, minute = 30, second = 0 \<rparr>"
    unfolding packed_example by (rule decode_example)
  show ?thesis
    by (intro conjI) (fact good bad ex)+
qed

lemma layout_example:
  "layout_year 20591 = 2020" "layout_month 20591 = 3" "layout_day 20591 = 15"
  "layout_hour 21440 = 10" "layout_minute 21440 = 30" "layout_second 21440 = 0"
  by (simp_all add: layout_year_def layout_month_def layout_day_def layout_hour_def
      layout_minute_def layout_second_def)

theorem DecodeDateAndTime_fields_witness:
  "valid_date (layout_year 20591) (layout_month 20591) (layout_day 20591)
   \<and> valid_time (layout_hour 21440) (layout_minute 21440) (layout_second 21440)
   \<and> DecodeDateAndTime 20591 21440
     = Inr \<lparr> year = 2020, month = 3, day = 15, hour = 10, minute = 30, second = 0 \<rparr>
   \<and> \<not> (valid_date (layout_year 33) (layout_month 33) (layout_day 33)
        \<and> valid_time (layout_hour 49152) (layout_minute 49152) (layout_second 49152))
   \<and> DecodeDateAndTime 33 49152 = Inl ValueError"
proof -
  have h: "valid_date (layout_year 20591) (layout_month 20591) (layout_day 20591)
      \<and> valid_time (layout_hour 21440) (layout_minute 21440) (layout_second 21440)"
    by (simp add: layout_example valid_date_def valid_time_def days_in_month_def)
  have r: "DecodeDateAndTime 20591 21440
      = Inr \<lparr> year = layout_year 20591, month = layout_month 20591,
              day = layout_day 20591, hour = layout_hour 21440,
              minute = layout_minute 21440, second = layout_second 21440 \<rparr>"
    by (rule mp[OF conjunct1[OF DecodeDateAndTime_fields] h])
  have h': "\<not> (valid_date (layout_year 33) (layout_month 33) (layout_day 33)
        \<and> valid_time (layout_hour 49152) (layout_minute 49152) (layout_second 49152))"
    by (simp add: valid_time_def layout_hour_def)
  have r': "DecodeDateAndTime 33 49152 = Inl ValueError"
    by (rule mp[OF conjunct1[OF conjunct2[OF DecodeDateAndTime_fields]] h'])
  from h r h' r' show ?thesis
    by (simp add: layout_example)
qed

text \<open>
  The claim as the specification states it, for every pair of 16-bit integers, fails where
  the fields are no calendar date (both packed values 0: month 0, day 0) or no time of
  day (date 1980-01-01 with the packed time 49152: hour 24).
\<close>

theorem DecodeDateAndTime_every_pair_counterexample:
  "DecodeDateAndTime 0 0 = Inl ValueError \<and> DecodeDateAndTime 33 49152 = Inl ValueError"
  by (simp add: DecodeDateAndTime_def datetime_datetime_def days_in_month_def)

text \<open>
  Claim C2. For every attribute value the six flags are the bits 5 (archive), 4
  (directory), 3 (volume label), 2 (system), 1 (hidden) and 0 (read-only) of the input;
  the bits above bit 5 change no flag; for a byte in 0..63 the flags rebuild exactly the
  byte; and 0b100001 gives archive and read-only, all others false.
\<close>

theorem DecodeAttributes_bits:
  "DecodeAttributes a =
     \<lparr> archive = bit a 5, dir = bit a 4, volume = bit a 3, system = bit a 2,
       hidden = bit a 1, ro = bit a 0 \<rparr>
   \<and> DecodeAttributes (a AND 63) = DecodeAttributes a
   \<and> DecodeAttributes (a + 64 * k) = DecodeAttributes a
   \<and> attribute_byte (DecodeAttributes a) = a AND 63
   \<and> (0 \<le> a \<and> a \<le> 63 \<longrightarrow> attribute_byte (DecodeAttributes a) = a)
   \<and> DecodeAttributes 0b100001 =
     \<lparr> archive = True, dir = False, volume = False, system = False, hidden = False,
       ro = True \<rparr>"
proof -
  have mask: "a AND 63 = take_bit 6 a"
    by (simp add: take_bit_eq_mask mask_eq_exp_minus_1)
  note flags = DecodeAttributes_flags[of a]
  note low = DecodeAttributes_low_bits[of a]
  have "(a + 64 * k) AND 63 = a AND 63"
    by (simp add: and_mask_mod)
  then have high: "DecodeAttributes (a + 64 * k) = DecodeAttributes a"
    using DecodeAttributes_low_bits[of "a + 64 * k"] DecodeAttributes_low_bits[of a] by simp
  have rebuild: "attribute_byte (DecodeAttributes a) = a AND 63"
    by (simp add: mask DecodeAttributes_flags attribute_byte_def take_bit_6_flags)
  have in_range: "0 \<le> a \<and> a \<le> 63 \<longrightarrow> attribute_byte (DecodeAttributes a) = a"
    by (simp add: rebuild and_mask_mod)
  have ex: "DecodeAttributes 0b100001 =
     \<lparr> archive = True, dir = False, volume = False, system = False, hidden = False,
       ro = True \<rparr>"
    by (simp add: DecodeAttributes_def)
  show ?thesis
    by (intro conjI) (fact flags low high rebuild in_range ex)+
qed

theorem DecodeAttributes_bits_witness:
  "(0::int) \<le> 33 \<and> (33::int) \<le> 63 \<and> attribute_byte (DecodeAttributes 33) = 33"
proof -
  have h: "(0::int) \<le> 33 \<and> (33::int) \<le> 63"
    by simp
  have "attribute_byte (DecodeAttributes 33) = 33"
    by (rule mp[OF conjunct1[OF conjunct2[OF conjunct2[OF conjunct2[OF conjunct2[OF
      DecodeAttributes_bits[of 33 0]]]]]] h])
  with h show ?thesis
    by simp
qed

text \<open>
  Claim C8. When the decoded month or day is not a calendar date (month 0 or above 12,
  day 0 or beyond the length of the month), constructing the calendar value raises
  \<^verbatim>\<open>ValueError\<close>; and a calendar value that does come back carries the decoded month
  and day unchanged, which are then a valid date: nothing is clamped or coerced.
\<close>

theorem DecodeDateAndTime_invalid_date:
  "(\<not> valid_date (layout_year datePacked) (layout_month datePacked) (layout_day datePacked)
      \<longrightarrow> DecodeDateAndTime datePacked timePacked = Inl ValueError)
   \<and> (DecodeDateAndTime datePacked timePacked = Inr dt \<longrightarrow>
        month dt = layout_month datePacked \<and> day dt = layout_day datePacked
        \<and> valid_date (year dt) (month dt) (day dt))"
proof -
  note eq = DecodeDateAndTime_eq[of datePacked timePacked]
  have first: "\<not> valid_date (layout_year datePacked) (layout_month datePacked)
      (layout_day datePacked) \<longrightarrow> DecodeDateAndTime datePacked timePacked = Inl ValueError"
    unfolding eq by (rule impI) (rule datetime_datetime_invalid)
  have second: "DecodeDateAndTime datePacked timePacked = Inr dt \<longrightarrow>
        month dt = layout_month datePacked \<and> day dt = layout_day datePacked
        \<and> valid_date (year dt) (month dt) (day dt)"
  proof
    assume r: "DecodeDateAndTime datePacked timePacked = Inr dt"
    have v: "valid_date (layout_year datePacked) (layout_month datePacked)
        (layout_day datePacked)"
      using r unfolding eq by (rule datetime_datetime_valid)
    have "dt = \<lparr> year = layout_year datePacked, month = layout_month datePacked,
        day = layout_day datePacked, hour = layout_hour timePacked,
        minute = layout_minute timePacked, second = layout_second timePacked \<rparr>"
      using r unfolding eq by (rule datetime_datetime_Inr)
    with v show "month dt = layout_month datePacked \<and> day dt = layout_day datePacked
        \<and> valid_date (year dt) (month dt) (day dt)"
      by simp
  qed
  show ?thesis
    by (intro conjI) (fact first second)+
qed

theorem DecodeDateAndTime_invalid_date_witness:
  "\<not> valid_date (layout_year 0) (layout_month 0) (layout_day 0)
   \<and> DecodeDateAndTime 0 0 = Inl ValueError
   \<and> layout_month 20574 = 2 \<and> layout_day 20574 = 30
   \<and> \<not> valid_date (layout_year 20574) (layout_month 20574) (layout_day 20574)
   \<and> DecodeDateAndTime 20574 0 = Inl ValueError"
proof -
  have h0: "\<not> valid_date (layout_year 0) (layout_month 0) (layout_day 0)"
    by (simp add: valid_date_def layout_month_def)
  have f: "layout_month 20574 = 2 \<and> layout_day 20574 = 30 \<and> layout_year 20574 = 2020"
    by (simp add: layout_month_def layout_day_def layout_year_def)
  have h1: "\<not> valid_date (layout_year 20574) (layout_month 20574) (layout_day 20574)"
    by (simp add: f valid_date_def days_in_month_def is_leap_def)
  have r0: "DecodeDateAndTime 0 0 = Inl ValueError"
    by (rule mp[OF conjunct1[OF DecodeDateAndTime_invalid_date] h0])
  have r1: "DecodeDateAndTime 20574 0 = Inl ValueError"
    by (rule mp[OF conjunct1[OF DecodeDateAndTime_invalid_date] h1])
  from h0 r0 f h1 r1 show ?thesis
    by simp
qed

subsection \<open>The listing decoder\<close>

lemma and_then_Inr: "and_then m k = Inr y \<longleftrightarrow> (\<exists>x. m = Inr x \<and> k x = Inr y)"
  by (cases m) (simp_all add: and_then_def)

lemma and_then_Inl: "and_then m k = Inl e \<longleftrightarrow> m = Inl e \<or> (\<exists>x. m = Inr x \<and> k x = Inl e)"
  by (cases m) (simp_all add: and_then_def)

lemma item_Inr: "item xs i = Inr x \<longleftrightarrow> i < length xs \<and> x = xs ! i"
  by (auto simp add: item_def)

lemma item_Inl: "item xs i = Inl e \<longleftrightarrow> \<not> i < length xs \<and> e = IndexError"
  by (auto simp add: item_def)

lemma if_Inl_ValueError: "(if c then Inl ValueError else Inr v) = Inl e \<Longrightarrow> e = ValueError"
  by (cases c) simp_all

lemma py_int_error: "py_int s = Inl e \<Longrightarrow> e = ValueError"
  unfolding py_int_def Let_def by (rule if_Inl_ValueError)

lemma DecodeDateAndTime_error: "DecodeDateAndTime d t = Inl e \<Longrightarrow> e = ValueError"
  unfolding DecodeDateAndTime_eq by (rule datetime_datetime_error)


lemma and_then_InrE:
  assumes "and_then m k = Inr y"
  obtains x where "m = Inr x" and "k x = Inr y"
  using assms by (auto simp add: and_then_Inr)

lemma and_then_InlE:
  assumes "and_then m k = Inl e"
  obtains "m = Inl e" | x where "m = Inr x" and "k x = Inl e"
  using assms by (auto simp add: and_then_Inl)

lemma parse_line_Inr:
  "parse_line line = Inr f \<Longrightarrow>
   is_ascii line \<and> 6 \<le> length (rsplit CHR '','' 6 line)
    \<and> dir_f f = rsplit CHR '','' 6 line ! 0 \<and> name f = rsplit CHR '','' 6 line ! 1
    \<and> py_int (rsplit CHR '','' 6 line ! 2) = Inr (size_f f)
    \<and> (\<exists>a. py_int (rsplit CHR '','' 6 line ! 3) = Inr a \<and> attr f = DecodeAttributes a)
    \<and> (\<exists>dp tp. py_int (rsplit CHR '','' 6 line ! 4) = Inr dp
          \<and> py_int (rsplit CHR '','' 6 line ! 5) = Inr tp
          \<and> DecodeDateAndTime dp tp = Inr (datetime_f f))"
  apply (cases "is_ascii line")
  unfolding parse_line_def Let_def
   apply simp_all
  apply (elim and_then_InrE)
  apply (clarsimp simp add: item_Inr)
  done


lemma parse_line_error:
  "parse_line line = Inl e \<Longrightarrow> e = IndexError \<or> e = ValueError \<or> e = UnicodeDecodeError"
  apply (cases "is_ascii line")
  unfolding parse_line_def Let_def
   apply simp_all
  apply (elim and_then_InlE)
             apply (simp_all add: item_Inl)
      apply ((drule py_int_error, simp)+)
  apply (drule DecodeDateAndTime_error, simp)
  done

lemma parse_lines_Inr:
  "parse_lines ls = Inr fs \<longleftrightarrow> list_all2 (\<lambda>l f. parse_line l = Inr f) ls fs"
proof (induction ls arbitrary: fs)
  case Nil
  show ?case by auto
next
  case (Cons l ls)
  show ?case
  proof (cases "parse_line l")
    case (Inl e)
    then show ?thesis by (simp add: list_all2_Cons1)
  next
    case pl: (Inr f)
    show ?thesis
    proof (cases "parse_lines ls")
      case (Inl e)
      have "\<not> list_all2 (\<lambda>l f. parse_line l = Inr f) ls gs" for gs
        using Cons.IH[of gs] Inl by simp
      then show ?thesis using pl Inl by (simp add: list_all2_Cons1)
    next
      case (Inr gs)
      have "list_all2 (\<lambda>l f. parse_line l = Inr f) ls hs \<longleftrightarrow> hs = gs" for hs
        using Cons.IH[of hs] Inr by auto
      then show ?thesis using pl Inr by (auto simp add: list_all2_Cons1)
    qed
  qed
qed

lemma parse_lines_Inl:
  "parse_lines ls = Inl e \<Longrightarrow> \<exists>l \<in> set ls. parse_line l = Inl e"
proof (induction ls)
  case Nil
  then show ?case by simp
next
  case (Cons l ls)
  show ?case
  proof (cases "parse_line l")
    case (Inl e')
    with Cons.prems show ?thesis by simp
  next
    case (Inr f)
    with Cons.prems have "parse_lines ls = Inl e"
      by (cases "parse_lines ls") simp_all
    with Cons.IH show ?thesis by auto
  qed
qed

lemma parse_lines_failing_line:
  assumes "l \<in> set ls" and "parse_line l = Inl e"
  shows "\<exists>e'. parse_lines ls = Inl e'"
proof (cases "parse_lines ls")
  case (Inl e')
  then show ?thesis by simp
next
  case (Inr fs)
  then have "list_all2 (\<lambda>l f. parse_line l = Inr f) ls fs"
    by (simp add: parse_lines_Inr)
  with assms(1) obtain f where "parse_line l = Inr f"
    by (auto simp add: list_all2_conv_all_nth in_set_conv_nth)
  with assms(2) show ?thesis by simp
qed

lemma malformed_line_fails:
  assumes "malformed_line l"
  shows "\<exists>e. parse_line l = Inl e"
proof (cases "parse_line l")
  case (Inl e)
  then show ?thesis by simp
next
  case (Inr f)
  from parse_line_Inr[OF Inr] have "\<not> malformed_line l"
    unfolding malformed_line_def Let_def by auto
  with assms show ?thesis by simp
qed

lemma decode_listing_header_ok:
  "decode_listing (''WLANSD_FILELIST'' # rest) = parse_lines rest"
  by (simp add: decode_listing_def)

lemma parse_lines_error:
  assumes "parse_lines ls = Inl e"
  shows "e = IndexError \<or> e = ValueError \<or> e = UnicodeDecodeError"
proof -
  from parse_lines_Inl[OF assms] obtain l where "parse_line l = Inl e"
    by blast
  then show ?thesis
    by (rule parse_line_error)
qed

text \<open>
  Claim C4. When the first line of the response is not the literal
  \<^verbatim>\<open>WLANSD_FILELIST\<close> the decoder raises the \<^verbatim>\<open>AssertionError\<close> of line 89 (the
  specification's ProtocolError) and returns no records; when the first line is the
  literal, that error is not raised, whatever the data lines are. The same holds for
  \<^verbatim>\<open>GetFileList\<close> on a device whose response has that first line.
\<close>

theorem decode_listing_header:
  "(decode_listing (first # rest) = Inl AssertionError \<longleftrightarrow> first \<noteq> ''WLANSD_FILELIST'')
   \<and> (first \<noteq> ''WLANSD_FILELIST'' \<longrightarrow> (\<forall>fs. decode_listing (first # rest) \<noteq> Inr fs))
   \<and> (get_op dev OP_GET_FILE_LIST (''DIR='' @ directory) = Inr (first # rest) \<longrightarrow>
        (GetFileList dev directory = Inl AssertionError \<longleftrightarrow> first \<noteq> ''WLANSD_FILELIST''))"
proof -
  have no_assert: "parse_lines rest \<noteq> Inl AssertionError"
    using parse_lines_error[of rest AssertionError] by auto
  have a: "decode_listing (first # rest) = Inl AssertionError \<longleftrightarrow> first \<noteq> ''WLANSD_FILELIST''"
    using no_assert by (simp add: decode_listing_def)
  have b: "first \<noteq> ''WLANSD_FILELIST'' \<longrightarrow> (\<forall>fs. decode_listing (first # rest) \<noteq> Inr fs)"
    by (simp add: decode_listing_def)
  have c: "get_op dev OP_GET_FILE_LIST (''DIR='' @ directory) = Inr (first # rest) \<longrightarrow>
        (GetFileList dev directory = Inl AssertionError \<longleftrightarrow> first \<noteq> ''WLANSD_FILELIST'')"
    using a by (simp add: GetFileList_def and_then_def)
  show ?thesis
    by (intro conjI) (fact a b c)+
qed

theorem decode_listing_header_witness:
  "''HTTP error'' \<noteq> ''WLANSD_FILELIST''
   \<and> decode_listing [''HTTP error'', ''/DCIM,IMG.JPG,100,32,20591,21440''] = Inl AssertionError
   \<and> (\<forall>fs. decode_listing [''HTTP error'', ''/DCIM,IMG.JPG,100,32,20591,21440''] \<noteq> Inr fs)
   \<and> decode_listing [''WLANSD_FILELIST'', ''bad''] \<noteq> Inl AssertionError"
proof -
  have h: "''HTTP error'' \<noteq> ''WLANSD_FILELIST''"
    by simp
  note t = decode_listing_header[of "''HTTP error''" "[''/DCIM,IMG.JPG,100,32,20591,21440'']"]
  have r1: "decode_listing [''HTTP error'', ''/DCIM,IMG.JPG,100,32,20591,21440'']
      = Inl AssertionError"
    using conjunct1[OF t] h by simp
  have r2: "\<forall>fs. decode_listing [''HTTP error'', ''/DCIM,IMG.JPG,100,32,20591,21440'']
      \<noteq> Inr fs"
    by (rule mp[OF conjunct1[OF conjunct2[OF t]] h])
  have r3: "decode_listing [''WLANSD_FILELIST'', ''bad''] \<noteq> Inl AssertionError"
    using conjunct1[OF decode_listing_header[of "''WLANSD_FILELIST''" "[''bad'']"]] by simp
  from h r1 r2 r3 show ?thesis
    by (intro conjI)
qed

text \<open>
  The decoder is all or nothing. With the header in place, a data line of fewer than six
  pieces, or of six pieces one of whose numeric fields is no integer, makes the whole
  call raise \<^verbatim>\<open>IndexError\<close>, \<^verbatim>\<open>ValueError\<close> or \<^verbatim>\<open>UnicodeDecodeError\<close>, wherever
  the line stands; and a call that returns has decoded every data line: one record per
  line, in order, never a partial list.
\<close>

lemma decode_listing_all_or_nothing:
  "(l \<in> set rest \<and> malformed_line l \<longrightarrow>
      (\<exists>e. decode_listing (''WLANSD_FILELIST'' # rest) = Inl e
          \<and> (e = IndexError \<or> e = ValueError \<or> e = UnicodeDecodeError)))
   \<and> (decode_listing (''WLANSD_FILELIST'' # rest) = Inr fs \<longrightarrow>
        list_all2 (\<lambda>l f. parse_line l = Inr f) rest fs)"
proof -
  have a: "l \<in> set rest \<and> malformed_line l \<longrightarrow>
      (\<exists>e. decode_listing (''WLANSD_FILELIST'' # rest) = Inl e
          \<and> (e = IndexError \<or> e = ValueError \<or> e = UnicodeDecodeError))"
  proof
    assume h: "l \<in> set rest \<and> malformed_line l"
    then obtain e where "parse_line l = Inl e"
      using malformed_line_fails by blast
    with h obtain e' where e': "parse_lines rest = Inl e'"
      using parse_lines_failing_line by blast
    from parse_lines_error[OF e'] e'
    show "\<exists>e. decode_listing (''WLANSD_FILELIST'' # rest) = Inl e
          \<and> (e = IndexError \<or> e = ValueError \<or> e = UnicodeDecodeError)"
      unfolding decode_listing_header_ok by blast
  qed
  have b: "decode_listing (''WLANSD_FILELIST'' # rest) = Inr fs \<longrightarrow>
        list_all2 (\<lambda>l f. parse_line l = Inr f) rest fs"
    unfolding decode_listing_header_ok by (simp add: parse_lines_Inr)
  show ?thesis
    by (intro conjI) (fact a b)+
qed

lemma short_line: "malformed_line ''/DCIM,IMG.JPG,100''"
  by code_simp

lemma good_line:
  "parse_line ''/DCIM,IMG.JPG,100,32,20591,21440'' =
     Inr \<lparr> dir_f = ''/DCIM'', name = ''IMG.JPG'', size_f = 100,
           attr = \<lparr> archive = True, dir = False, volume = False, system = False,
                    hidden = False, ro = False \<rparr>,
           datetime_f = \<lparr> year = 2020, month = 3, day = 15, hour = 10, minute = 30,
                          second = 0 \<rparr> \<rparr>"
  by code_simp

lemma decode_listing_all_or_nothing_example:
  "''/DCIM,IMG.JPG,100'' \<in> set [''/DCIM,IMG.JPG,100,32,20591,21440'', ''/DCIM,IMG.JPG,100'']
   \<and> malformed_line ''/DCIM,IMG.JPG,100''
   \<and> (\<exists>e. decode_listing [''WLANSD_FILELIST'', ''/DCIM,IMG.JPG,100,32,20591,21440'',
            ''/DCIM,IMG.JPG,100''] = Inl e
         \<and> (e = IndexError \<or> e = ValueError \<or> e = UnicodeDecodeError))"
proof -
  have h: "''/DCIM,IMG.JPG,100''
      \<in> set [''/DCIM,IMG.JPG,100,32,20591,21440'', ''/DCIM,IMG.JPG,100'']
    \<and> malformed_line ''/DCIM,IMG.JPG,100''"
    using short_line by simp
  have "\<exists>e. decode_listing [''WLANSD_FILELIST'', ''/DCIM,IMG.JPG,100,32,20591,21440'',
            ''/DCIM,IMG.JPG,100''] = Inl e
         \<and> (e = IndexError \<or> e = ValueError \<or> e = UnicodeDecodeError)"
    by (rule mp[OF conjunct1[OF decode_listing_all_or_nothing] h])
  with h show ?thesis
    by (intro conjI) simp_all
qed

text \<open>
  Claim C3 does not hold of the code for a line of more than six fields. The line
  \<open>d,n,5,32,33,0,extra\<close> has seven comma-separated fields, and the last one, where the
  time stands, is no number; \<^verbatim>\<open>rsplit(',', 6)\<close> keeps seven pieces, the code reads the
  first six and never looks at the seventh, and the call returns a record instead of
  failing. (A split of five, which gives the six fields of the format, has \<open>extra\<close> as
  the time field and fails on it.)
\<close>

theorem decode_listing_accepts_seven_fields:
  "rsplit CHR '','' 6 ''d,n,5,32,33,0,extra''
     = [''d'', ''n'', ''5'', ''32'', ''33'', ''0'', ''extra'']
   \<and> rsplit CHR '','' 5 ''d,n,5,32,33,0,extra''
     = [''d,n'', ''5'', ''32'', ''33'', ''0'', ''extra'']
   \<and> py_int ''extra'' = Inl ValueError
   \<and> decode_listing [''WLANSD_FILELIST'', ''d,n,5,32,33,0,extra''] =
     Inr [\<lparr> dir_f = ''d'', name = ''n'', size_f = 5,
            attr = \<lparr> archive = True, dir = False, volume = False, system = False,
                     hidden = False, ro = False \<rparr>,
            datetime_f = \<lparr> year = 1980, month = 1, day = 1, hour = 0, minute = 0,
                           second = 0 \<rparr> \<rparr>]"
  by code_simp

text \<open>
  Claim C5 does not hold of the code. The line format has six fields, and
  \<^verbatim>\<open>rsplit(',', 6)\<close> splits six times, into up to seven pieces. A comma inside the
  directory or the name therefore shifts every field by one: for the directory \<open>/a\<close>,
  the name \<open>n,7\<close>, size 100, attribute byte 33, date 33 and time 0 the record has the name
  \<open>n\<close>, the size 7 and the attributes of 100; and a line whose shifted size piece is no
  number makes the whole listing fail. Without an embedded comma the fields are right.
\<close>

theorem parse_line_embedded_comma:
  "rsplit CHR '','' 6 ''/a,n,7,100,33,33,0'' = [''/a'', ''n'', ''7'', ''100'', ''33'', ''33'', ''0'']
   \<and> parse_line ''/a,n,7,100,33,33,0'' =
     Inr \<lparr> dir_f = ''/a'', name = ''n'', size_f = 7, attr = DecodeAttributes 100,
           datetime_f = \<lparr> year = 1980, month = 1, day = 1, hour = 0, minute = 1,
                          second = 2 \<rparr> \<rparr>
   \<and> decode_listing [''WLANSD_FILELIST'', ''/DCIM,100,IMG.JPG,100,32,20591,21440'']
     = Inl ValueError
   \<and> rsplit CHR '','' 6 ''/DCIM,IMG.JPG,100,32,20591,21440''
     = [''/DCIM'', ''IMG.JPG'', ''100'', ''32'', ''20591'', ''21440'']"
  by code_simp

subsection \<open>The tree walker\<close>

declare digits.simps [simp del]

lemma walk_files_reports:
  "reports dev directory files ts \<Longrightarrow> height_forest ts \<le> n \<Longrightarrow>
   walk_files (RecursiveFileList n dev) directory levels files
     = Some (preorder_forest levels ts, Inr ())"
proof (induction dev directory files ts arbitrary: n levels rule: reports.induct)
  case (1 dev directory)
  show ?case by simp
next
  case (2 dev directory f fs g cs ts)
  from "2.prems"(1) have fg: "f = g" and tail: "reports dev directory fs ts"
    by simp_all
  from "2.prems"(2) have hts: "height_forest ts \<le> n" and hcs: "Suc (height_forest cs) \<le> n"
    by simp_all
  have rest: "walk_files (RecursiveFileList n dev) directory levels fs
      = Some (preorder_forest levels ts, Inr ())"
    using "2.IH"(2)[OF tail hts] .
  show ?case
  proof (cases "dir (attr f)")
    case False
    with "2.prems"(1) have "cs = []"
      by simp
    with False rest fg show ?thesis
      by simp
  next
    case True
    with "2.prems"(1) obtain files
      where listing: "GetFileList dev (directory @ ''/'' @ name f) = Inr files"
        and sub: "reports dev (directory @ ''/'' @ name f) files cs"
      by (auto split: sum.splits)
    from hcs obtain m where n: "n = Suc m" and hm: "height_forest cs \<le> m"
      by (cases n) simp_all
    have "walk_files (RecursiveFileList m dev) (directory @ ''/'' @ name f) (levels + 1) files
        = Some (preorder_forest (levels + 1) cs, Inr ())"
      using "2.IH"(1)[OF True listing sub hm] .
    then have "RecursiveFileList n dev (directory @ ''/'' @ name f) (levels + 1)
        = Some (preorder_forest (levels + 1) cs, Inr ())"
      using listing n by simp
    with True rest fg show ?thesis
      by simp
  qed
qed simp_all

text \<open>
  Claim C7. For every directory tree the device reports, a walk with enough fuel (more
  nested calls than the tree is high) ends normally and has printed exactly the
  depth-first pre-order of the tree: each entry before its subtree, the whole subtree
  before the next sibling, siblings in listing order, each level indented two more
  spaces.
\<close>

theorem RecursiveFileList_preorder:
  assumes "device_tree dev directory ts" and "height_forest ts < fuel"
  shows "RecursiveFileList fuel dev directory levels = Some (preorder_forest levels ts, Inr ())"
proof -
  from assms(1) obtain files where listing: "GetFileList dev directory = Inr files"
    and r: "reports dev directory files ts"
    by (auto simp add: device_tree_def split: sum.splits)
  from assms(2) obtain m where fuel: "fuel = Suc m" and hm: "height_forest ts \<le> m"
    by (cases fuel) simp_all
  from walk_files_reports[OF r hm] listing fuel show ?thesis
    by simp
qed

lemma example_card_root:
  "GetFileList example_card ''/'' = Inr [file_a, file_b]"
  by code_simp

lemma example_card_a:
  "GetFileList example_card ''//a'' = Inr [file_c]"
  by code_simp

lemma example_flags:
  "dir (attr file_a)" "\<not> dir (attr file_b)" "\<not> dir (attr file_c)"
  "name file_a = ''a''" "name file_b = ''b''" "name file_c = ''c''"
  by (simp_all add: file_a_def file_b_def file_c_def DecodeAttributes_def)

lemma example_card_tree:
  "device_tree example_card ''/'' [Node file_a [Node file_c []], Node file_b []]"
  by (simp add: device_tree_def example_card_root example_card_a example_flags)

lemma example_lines:
  "entry_line 0 file_a = ''a/ | 2020-03-15 10:30:00''"
  "entry_line (Suc 0) file_c = ''  c | 3 bytes | 2020-03-15 10:30:00''"
  "entry_line 0 file_b = ''b | 10 bytes | 2020-03-15 10:30:00''"
  by code_simp+

theorem RecursiveFileList_preorder_witness:
  "device_tree example_card ''/'' [Node file_a [Node file_c []], Node file_b []]
   \<and> height_forest [Node file_a [Node file_c []], Node file_b []] < 3
   \<and> RecursiveFileList 3 example_card ''/'' 0 =
       Some ([''a/ | 2020-03-15 10:30:00'', ''  c | 3 bytes | 2020-03-15 10:30:00'',
              ''b | 10 bytes | 2020-03-15 10:30:00''], Inr ())"
proof -
  have h: "height_forest [Node file_a [Node file_c []], Node file_b []] < 3"
    by simp
  from RecursiveFileList_preorder[OF example_card_tree h, of 0] example_card_tree h
  show ?thesis
    by (simp add: example_lines)
qed

subsection \<open>Sync: regular files\<close>

lemma fetch_file_result:
  "fetch_file dev rf lf w =
     (case get_file dev rf of
        Inl e \<Rightarrow> Some (w\<lparr>requests := requests w @ [FileRequest rf]\<rparr>, Inl e)
      | Inr contents \<Rightarrow>
          if disk w lf = Some Directory
          then Some (w\<lparr>requests := requests w @ [FileRequest rf]\<rparr>, Inl IOError)
          else Some (w\<lparr>requests := requests w @ [FileRequest rf],
                       disk := (disk w)(lf \<mapsto> RegularFile contents)\<rparr>, Inr ()))"
  by (simp add: fetch_file_def open_write_def Let_def split: sum.splits)

lemma Sync_entry_file:
  assumes "\<not> dir (attr f)"
  shows "Sync_entry rec dev remote_dir local_dir force_lowercase f w =
     (if needs_fetch w (local_path local_dir (name f) force_lowercase) (size_f f)
      then fetch_file dev (path_join remote_dir (name f))
             (local_path local_dir (name f) force_lowercase)
             (print (if disk w (local_path local_dir (name f) force_lowercase) = None
                     then ''  does not exist locally, fetching...''
                     else ''  size differs, fetching...'') (print (name f) w))
      else Some (print (name f) w, Inr ()))"
  using assms
  by (simp add: Sync_entry_def Let_def needs_fetch_def path_exists_def stat_size_def print_def
           split: option.splits node.splits)


lemma example_sync_paths:
  "path_join ''/'' ''b'' = ''/b''" "local_path ''/tmp'' ''b'' True = ''/tmp/b''"
  "path_join ''/'' ''a'' = ''/a''" "local_path ''/tmp'' ''a'' True = ''/tmp/a''"
  "path_join ''/a'' ''c'' = ''/a/c''" "local_path ''/tmp/a'' ''c'' True = ''/tmp/a/c''"
  "local_path ''/tmp'' ''IMG.JPG'' True = ''/tmp/img.jpg''"
  "local_path ''/tmp'' ''IMG.JPG'' False = ''/tmp/IMG.JPG''"
  by code_simp+


lemma example_fetch:
  "get_file example_card ''/b'' = Inr ''0123456789''"
  "size_f file_b = 10"
  by (simp_all add: example_card_def file_b_def)


subsection \<open>Sync: directories\<close>

lemma Sync_Suc:
  "Sync (Suc n) dev remote_dir local_dir fl w =
     (if disk w local_dir = None
      then Some (w\<lparr>stdout := stdout w @ [''Syncing '' @ remote_dir @ '' -> '' @ local_dir]\<rparr>,
                 Inl ValueError)
      else
        (case GetFileList dev remote_dir of
           Inl e \<Rightarrow>
             Some (w\<lparr>stdout := stdout w @ [''Syncing '' @ remote_dir @ '' -> '' @ local_dir],
                      requests := requests w @ [ListRequest remote_dir]\<rparr>, Inl e)
         | Inr files \<Rightarrow>
             Sync_files (\<lambda>r l. Sync n dev r l fl) dev remote_dir local_dir fl files
               (w\<lparr>stdout := stdout w @ [''Syncing '' @ remote_dir @ '' -> '' @ local_dir],
                   requests := requests w @ [ListRequest remote_dir]\<rparr>)))"
  by (simp add: Let_def print_def path_exists_def split: sum.splits)

lemma Sync_entry_dir:
  assumes "dir (attr f)"
  shows "Sync_entry rec dev remote_dir local_dir fl f w =
     (case disk w (local_path local_dir (name f) fl) of
        None \<Rightarrow>
          rec (path_join remote_dir (name f)) (local_path local_dir (name f) fl)
            (w\<lparr>stdout := stdout w @ [name f],
                disk := (disk w)(local_path local_dir (name f) fl \<mapsto> Directory)\<rparr>)
      | Some Directory \<Rightarrow>
          rec (path_join remote_dir (name f)) (local_path local_dir (name f) fl)
            (w\<lparr>stdout := stdout w @ [name f]\<rparr>)
      | Some (RegularFile contents) \<Rightarrow>
          Some (w\<lparr>stdout := stdout w @ [name f]\<rparr>, Inl AssertionError))"
  using assms
  by (simp add: Sync_entry_def Let_def path_exists_def path_isdir_def mkdir_def print_def
           split: option.splits node.splits)


lemma example_card_sync_a:
  "GetFileList example_card ''/a'' = Inr [file_c_sync]"
  by code_simp

lemma example_sync_flags:
  "\<not> dir (attr file_c_sync)" "name file_c_sync = ''c''" "size_f file_c_sync = 3"
  "get_file example_card ''/a/c'' = Inr ''xyz''"
  by (simp_all add: file_c_sync_def file_c_def DecodeAttributes_def example_card_def)

lemma example_worlds_a:
  "disk world_empty = [''/tmp/keep'' \<mapsto> RegularFile ''mine'', ''/tmp'' \<mapsto> Directory]"
  "requests world_empty = []"
  "disk world_conflict = [''/tmp/a'' \<mapsto> RegularFile ''not a directory'', ''/tmp'' \<mapsto> Directory]"
  "requests world_conflict = []"
  by (simp_all add: world_empty_def world_conflict_def local_world_def)


subsection \<open>Sync: the local paths left alone\<close>












lemma example_sync_run:
  "\<exists>w'. Sync (Suc (Suc 0)) example_card ''/'' ''/tmp'' True world_empty = Some (w', Inr ())
     \<and> requests w' = [ListRequest ''/'', ListRequest ''/a'', FileRequest ''/a/c'', FileRequest ''/b'']
     \<and> disk w' ''/tmp/a'' = Some Directory
     \<and> disk w' ''/tmp/a/c'' = Some (RegularFile ''xyz'')
     \<and> disk w' ''/tmp/b'' = Some (RegularFile ''0123456789'')"
  by (simp add: Sync_Suc example_card_root example_card_sync_a example_flags example_sync_flags
        example_sync_paths example_fetch Sync_entry_dir Sync_entry_file fetch_file_result
        needs_fetch_def print_def example_worlds_a del: Sync.simps)


end
